theory Spec2Isabelle
  imports Main "HOL-Library.AList"
begin

section \<open>Values exchanged with the collaborators\<close>

text \<open>
  The source file is \<^verbatim>\<open>pyrlang/process.py\<close>. Atoms, pids and references come from the
  \<^verbatim>\<open>term\<close> package; pids and references are opaque identities (type variables), an atom is
  a string subclass, so \<^verbatim>\<open>reason == 'normal'\<close> compares the atom's text. \<open>PyNone\<close> is
  Python's \<^verbatim>\<open>None\<close>; \<open>PyStr\<close> and \<open>PyInt\<close> stand for values that are not atoms.
\<close>

datatype ('pid, 'ref) pyterm =
    PyNone
  | Atom string
  | PyStr string
  | PyInt int
  | PidT 'pid
  | RefT 'ref
  | Tuple "('pid, 'ref) pyterm list"

text \<open>\<^verbatim>\<open>isinstance(reason, Atom)\<close>\<close>

fun isinstance_Atom :: "('pid, 'ref) pyterm \<Rightarrow> bool" where
  "isinstance_Atom (Atom a) = True"
| "isinstance_Atom t = False"

text \<open>The text of \<^verbatim>\<open>type(reason)\<close> as \<^verbatim>\<open>format\<close> renders it.\<close>

fun type_repr :: "('pid, 'ref) pyterm \<Rightarrow> string" where
  "type_repr PyNone = ''<class 'NoneType'>''"
| "type_repr (Atom a) = ''<class 'term.atom.Atom'>''"
| "type_repr (PyStr s) = ''<class 'str'>''"
| "type_repr (PyInt i) = ''<class 'int'>''"
| "type_repr (PidT p) = ''<class 'term.pid.Pid'>''"
| "type_repr (RefT r) = ''<class 'term.reference.Reference'>''"
| "type_repr (Tuple ts) = ''<class 'tuple'>''"

text \<open>
  Exceptions as values. \<open>CancelledError\<close> and \<open>TimeoutError\<close> are those of
  \<^verbatim>\<open>asyncio\<close>, \<open>ProcessTimeoutError\<close> is that of \<^verbatim>\<open>pyrlang.errors\<close>; \<open>Fault\<close> is any
  other subclass of \<^verbatim>\<open>Exception\<close> raised by user code such as the message handler;
  \<open>BaseFault\<close> is an exception that derives from \<^verbatim>\<open>BaseException\<close> only (such as
  \<^verbatim>\<open>SystemExit\<close>), which \<^verbatim>\<open>except Exception\<close> does not catch.
\<close>

datatype error =
    ValueError string
  | AttributeError string
  | KeyError
  | ProcessTimeoutError string
  | TimeoutError
  | CancelledError
  | Fault string
  | BaseFault string

text \<open>
  \<^verbatim>\<open>isinstance(e, Exception)\<close>. \<open>CancelledError\<close> derives from \<^verbatim>\<open>BaseException\<close>;
  wherever the code could catch it as an \<^verbatim>\<open>Exception\<close>, an earlier handler names it.
\<close>

fun isinstance_Exception :: "error \<Rightarrow> bool" where
  "isinstance_Exception CancelledError = False"
| "isinstance_Exception (BaseFault s) = False"
| "isinstance_Exception e = True"

text \<open>
  The calls the process makes on its node (\<^verbatim>\<open>node_db.get(self.node_name_)\<close>), in the order
  it makes them: \<^verbatim>\<open>send_nowait(sender, receiver, message)\<close>,
  \<^verbatim>\<open>send_link_exit_notification(sender, receiver, reason)\<close> and
  \<^verbatim>\<open>on_exit_process(pid, reason)\<close>.
\<close>

datatype ('pid, 'ref) node_call =
    SendNowait 'pid 'pid "('pid, 'ref) pyterm"
  | SendLinkExitNotification 'pid 'pid "('pid, 'ref) pyterm"
  | OnExitProcess 'pid "('pid, 'ref) pyterm"

section \<open>The pattern matcher\<close>

text \<open>
  \<^verbatim>\<open>pyrlang.match.Match\<close> is a collaborator: a callable that, given a message, returns a
  falsy value (\<open>None\<close> here) or a matched pattern whose \<^verbatim>\<open>run(msg)\<close> gives the value that
  \<^verbatim>\<open>receive\<close> returns.
\<close>

datatype ('msg, 'res) pattern = Pattern (run: "'msg \<Rightarrow> 'res")

type_synonym ('msg, 'res) matcher = "'msg \<Rightarrow> ('msg, 'res) pattern option"

section \<open>The process\<close>

text \<open>
  \<^verbatim>\<open>asyncio.Task.cancel()\<close> on a task that is done does nothing; on a task that is not done
  it requests the cancellation. A done task holds what awaiting it gives: a return, or the
  exception it raises (\<open>CancelledError\<close> for a cancelled task).
\<close>

datatype task =
    Pending
  | MustCancel
  | Done "error option"

fun cancel :: "task \<Rightarrow> task" where
  "cancel Pending = MustCancel"
| "cancel MustCancel = MustCancel"
| "cancel (Done r) = Done r"

text \<open>
  The fields of \<^verbatim>\<open>Process\<close>: \<open>inbox\<close> is \<^verbatim>\<open>inbox_\<close> and \<open>tmp_inbox\<close> is
  \<^verbatim>\<open>__tmp_inbox\<close> (FIFO queues, head first), \<open>pid\<close> is \<^verbatim>\<open>pid_\<close>, \<open>passive_mode\<close> is
  \<^verbatim>\<open>passive_\<close>, \<open>is_exiting\<close> is \<^verbatim>\<open>is_exiting_\<close>, \<open>default_match\<close> is \<^verbatim>\<open>_match\<close>.
  The two monitor dictionaries are association lists in insertion order (the order in which
  \<^verbatim>\<open>items()\<close> iterates); \<open>links\<close> lists the members of the set \<^verbatim>\<open>_links\<close> in the order
  in which the set iterates. \<open>run_task\<close> is \<open>None\<close> for a passive process: the constructor
  sets \<^verbatim>\<open>_run_task\<close> only when \<^verbatim>\<open>passive_\<close> is false.
\<close>

record ('msg, 'res, 'pid, 'ref) process =
  pid :: 'pid
  passive_mode :: bool
  inbox :: "'msg list"
  tmp_inbox :: "'msg list"
  is_exiting :: bool
  monitored_by :: "('ref \<times> 'pid) list"
  monitors :: "('ref \<times> 'pid) list"
  links :: "'pid list"
  signals :: "(string \<times> ('pid, 'ref) pyterm) list"
  default_match :: "('msg, 'res) matcher"
  run_task :: "task option"

subsection \<open>Mailbox and selective receive\<close>

text \<open>
  \<^verbatim>\<open>_cleanup_inbox\<close>: the first loop moves what is left of the inbox behind the skipped
  messages, the second loop moves the whole temporary inbox back. \<^verbatim>\<open>task_done()\<close> only
  counts down the queue's unfinished items, at most once per item taken, and is left out.
\<close>

function cleanup_drain ::
  "('msg, 'res, 'pid, 'ref) process \<Rightarrow> ('msg, 'res, 'pid, 'ref) process" where
  "cleanup_drain p =
     (case inbox p of
        [] \<Rightarrow> p
      | m # rest \<Rightarrow> cleanup_drain (p\<lparr>inbox := rest, tmp_inbox := tmp_inbox p @ [m]\<rparr>))"
  by pat_completeness auto
termination
  by (relation "measure (\<lambda>p. length (inbox p))") auto

function cleanup_refill ::
  "('msg, 'res, 'pid, 'ref) process \<Rightarrow> ('msg, 'res, 'pid, 'ref) process" where
  "cleanup_refill p =
     (case tmp_inbox p of
        [] \<Rightarrow> p
      | m # rest \<Rightarrow> cleanup_refill (p\<lparr>tmp_inbox := rest, inbox := inbox p @ [m]\<rparr>))"
  by pat_completeness auto
termination
  by (relation "measure (\<lambda>p. length (tmp_inbox p))") auto

definition cleanup_inbox ::
  "('msg, 'res, 'pid, 'ref) process \<Rightarrow> ('msg, 'res, 'pid, 'ref) process" where
  "cleanup_inbox p = cleanup_refill (cleanup_drain p)"

text \<open>
  What a call of a coroutine has come to: it returned a value, raised, or is suspended at
  \<^verbatim>\<open>await self.inbox_.get()\<close> on an empty inbox. Each carries the state of the process.
\<close>

datatype ('msg, 'res, 'pid, 'ref) outcome =
    Returned 'res "('msg, 'res, 'pid, 'ref) process"
  | Raised error "('msg, 'res, 'pid, 'ref) process"
  | Waiting "('msg, 'res, 'pid, 'ref) process"

text \<open>
  The \<^verbatim>\<open>while True\<close> loop of \<^verbatim>\<open>_receive\<close>, from the state it is in until it returns or
  suspends. \<^verbatim>\<open>Queue.get\<close> does not suspend while the queue holds an item. The second
  component lists the messages that the loop passed to the matcher, in order.
\<close>

function receive_loop ::
  "('msg, 'res) matcher \<Rightarrow> ('msg, 'res, 'pid, 'ref) process
     \<Rightarrow> ('msg, 'res, 'pid, 'ref) outcome \<times> 'msg list" where
  "receive_loop match p =
     (case inbox p of
        [] \<Rightarrow> (Waiting p, [])
      | msg # rest \<Rightarrow>
          (case match msg of
             None \<Rightarrow>
               (let (out, tested) =
                      receive_loop match (p\<lparr>inbox := rest, tmp_inbox := tmp_inbox p @ [msg]\<rparr>)
                in (out, msg # tested))
           | Some matched_pattern \<Rightarrow>
               (Returned (run matched_pattern msg) (cleanup_inbox (p\<lparr>inbox := rest\<rparr>)),
                [msg])))"
  by pat_completeness auto
termination
  by (relation "measure (\<lambda>(match, p). length (inbox p))") auto


text \<open>\<^verbatim>\<open>if not match: match = self._match\<close>\<close>

definition the_match ::
  "('msg, 'res) matcher option \<Rightarrow> ('msg, 'res, 'pid, 'ref) process \<Rightarrow> ('msg, 'res) matcher" where
  "the_match match p = (case match of None \<Rightarrow> default_match p | Some m \<Rightarrow> m)"

text \<open>\<^verbatim>\<open>_receive\<close>, up to its return, its raise or its first suspension.\<close>

definition receive_inner ::
  "('msg, 'res) matcher option \<Rightarrow> ('msg, 'res, 'pid, 'ref) process
     \<Rightarrow> ('msg, 'res, 'pid, 'ref) outcome \<times> 'msg list" where
  "receive_inner match p =
     (if tmp_inbox p \<noteq> [] then (Raised (ValueError ''temporary inbox not empty'') p, [])
      else receive_loop (the_match match p) p)"

text \<open>
  What happens while \<^verbatim>\<open>_receive\<close> is suspended: \<open>Deliver m\<close> is \<^verbatim>\<open>inbox_.put_nowait(m)\<close>
  (what \<^verbatim>\<open>deliver_message\<close> does on an active process), which wakes the suspended
  \<^verbatim>\<open>get\<close>; \<open>Expire\<close> is the timer of \<^verbatim>\<open>asyncio.wait_for\<close> running out. \<open>timed\<close> says
  whether the call runs under \<^verbatim>\<open>wait_for\<close>: when it does, the expiry cancels the suspended
  coroutine (which has no handler for the cancellation) and \<^verbatim>\<open>wait_for\<close> raises
  \<open>TimeoutError\<close>; without a timer there is no expiry. Events after the call has returned
  or raised are not part of the call.
\<close>

datatype 'msg event = Deliver 'msg | Expire

fun receive_events ::
  "('msg, 'res) matcher \<Rightarrow> bool \<Rightarrow> ('msg, 'res, 'pid, 'ref) outcome \<times> 'msg list
     \<Rightarrow> 'msg event list \<Rightarrow> ('msg, 'res, 'pid, 'ref) outcome \<times> 'msg list" where
  "receive_events match timed (Waiting p, tested) (Deliver m # es) =
     (let (out, t) = receive_loop match (p\<lparr>inbox := inbox p @ [m]\<rparr>)
      in receive_events match timed (out, tested @ t) es)"
| "receive_events match timed (Waiting p, tested) (Expire # es) =
     (if timed then (Raised TimeoutError p, tested)
      else receive_events match timed (Waiting p, tested) es)"
| "receive_events match timed r es = r"

definition await_receive ::
  "('msg, 'res) matcher option \<Rightarrow> bool \<Rightarrow> ('msg, 'res, 'pid, 'ref) process
     \<Rightarrow> 'msg event list \<Rightarrow> ('msg, 'res, 'pid, 'ref) outcome \<times> 'msg list" where
  "await_receive match timed p es =
     receive_events (the_match match p) timed (receive_inner match p) es"

text \<open>
  \<^verbatim>\<open>__repr__\<close>; the text of a pid is the collaborator's, a parameter here.
\<close>

definition process_repr ::
  "('pid \<Rightarrow> string) \<Rightarrow> ('msg, 'res, 'pid, 'ref) process \<Rightarrow> string" where
  "process_repr pid_repr p = ''pyrlang.Process: '' @ pid_repr (pid p)"

text \<open>
  \<^verbatim>\<open>asyncio.wait_for(self._receive(match), timeout)\<close> for a timeout that is a number. With
  \<^verbatim>\<open>timeout <= 0\<close> it cancels the coroutine before the coroutine has run a statement and
  raises \<open>TimeoutError\<close>: the process is as it was and no message has been tested. With a
  positive timeout the coroutine runs first and the timer is an event.
\<close>

definition wait_for ::
  "('msg, 'res) matcher option \<Rightarrow> int \<Rightarrow> ('msg, 'res, 'pid, 'ref) process \<Rightarrow> 'msg event list
     \<Rightarrow> ('msg, 'res, 'pid, 'ref) outcome \<times> 'msg list" where
  "wait_for match timeout p es =
     (if timeout \<le> 0 then (Raised TimeoutError p, []) else await_receive match True p es)"

text \<open>
  \<^verbatim>\<open>receive(match, timeout, timeout_callback)\<close> with the events \<open>es\<close> that happen while the
  call is suspended. \<open>timeout\<close> is the number given or \<open>None\<close>; \<^verbatim>\<open>not timeout\<close> holds for
  \<open>None\<close> and for 0. \<open>timeout_callback\<close> is \<open>Some f\<close> for a callable and \<open>None\<close> for
  \<^verbatim>\<open>None\<close> or any other value that is not callable.
\<close>

definition receive ::
  "('pid \<Rightarrow> string) \<Rightarrow> ('msg, 'res) matcher option \<Rightarrow> int option \<Rightarrow> (unit \<Rightarrow> 'res) option
     \<Rightarrow> ('msg, 'res, 'pid, 'ref) process \<Rightarrow> 'msg event list
     \<Rightarrow> ('msg, 'res, 'pid, 'ref) outcome \<times> 'msg list" where
  "receive pid_repr match timeout timeout_callback p es =
     (case timeout of
        None \<Rightarrow> await_receive match False p es
      | Some t \<Rightarrow>
          (if t = 0 then await_receive match False p es
           else
             (case wait_for match t p es of
                (Raised e p', tested) \<Rightarrow>
                  (if e = TimeoutError then
                     (case timeout_callback of
                        None \<Rightarrow>
                          (Raised (ProcessTimeoutError
                             (''receive in '' @ process_repr pid_repr p' @ '' timed out'')) p',
                           tested)
                      | Some f \<Rightarrow> (Returned (f ()) p', tested))
                   else (Raised e p', tested))
              | r \<Rightarrow> r)))"

subsection \<open>Links and monitors\<close>

text \<open>
  \<^verbatim>\<open>set.remove\<close> raises \<open>KeyError\<close> when the element is not in the set; removing a
  member leaves the others in their order. (Where \<^verbatim>\<open>add_link\<close> puts a new member in the
  iteration order depends on the hashes of the pids, which the model does not have.)
\<close>

definition remove_link ::
  "'pid \<Rightarrow> ('msg, 'res, 'pid, 'ref) process
     \<Rightarrow> error option \<times> ('msg, 'res, 'pid, 'ref) process" where
  "remove_link peer p =
     (if peer \<in> set (links p) then (None, p\<lparr>links := removeAll peer (links p)\<rparr>)
      else (Some KeyError, p))"

definition add_monitor ::
  "'pid \<Rightarrow> 'ref \<Rightarrow> ('msg, 'res, 'pid, 'ref) process \<Rightarrow> ('msg, 'res, 'pid, 'ref) process" where
  "add_monitor target ref p = p\<lparr>monitors := AList.update ref target (monitors p)\<rparr>"

definition add_monitored_by ::
  "'pid \<Rightarrow> 'ref \<Rightarrow> ('msg, 'res, 'pid, 'ref) process \<Rightarrow> ('msg, 'res, 'pid, 'ref) process" where
  "add_monitored_by owner ref p = p\<lparr>monitored_by := AList.update ref owner (monitored_by p)\<rparr>"

text \<open>
  \<^verbatim>\<open>existing = self._monitors.get(ref, None)\<close>; the argument is a \<^verbatim>\<open>Pid\<close>, as annotated,
  so \<^verbatim>\<open>existing == pid\<close> holds exactly when the reference is stored with that pid.
\<close>

definition remove_monitor ::
  "'pid \<Rightarrow> 'ref \<Rightarrow> ('msg, 'res, 'pid, 'ref) process \<Rightarrow> ('msg, 'res, 'pid, 'ref) process" where
  "remove_monitor target ref p =
     (let existing = map_of (monitors p) ref
      in if existing = Some target then p\<lparr>monitors := AList.delete ref (monitors p)\<rparr> else p)"

definition remove_monitored_by ::
  "'pid \<Rightarrow> 'ref \<Rightarrow> ('msg, 'res, 'pid, 'ref) process \<Rightarrow> ('msg, 'res, 'pid, 'ref) process" where
  "remove_monitored_by owner ref p =
     (let existing = map_of (monitored_by p) ref
      in if existing = Some owner then p\<lparr>monitored_by := AList.delete ref (monitored_by p)\<rparr>
         else p)"

subsection \<open>Exit signal\<close>

definition trigger_monitors ::
  "('pid, 'ref) pyterm \<Rightarrow> ('msg, 'res, 'pid, 'ref) process \<Rightarrow> ('pid, 'ref) node_call list" where
  "trigger_monitors reason p =
     map (\<lambda>(monitor_ref, monitor_owner).
            SendNowait (pid p) monitor_owner
              (Tuple [Atom ''DOWN'', RefT monitor_ref, Atom ''process'', PidT (pid p), reason]))
         (monitored_by p)"

definition trigger_links ::
  "('pid, 'ref) pyterm \<Rightarrow> ('msg, 'res, 'pid, 'ref) process
     \<Rightarrow> error option \<times> ('pid, 'ref) node_call list" where
  "trigger_links reason p =
     (if \<not> isinstance_Atom reason then
        (Some (AttributeError (''reason must be Atom, got '' @ type_repr reason)), [])
      else if reason = Atom ''normal'' then (None, [])
      else
        (let reason' = (if reason = Atom ''kill'' then Atom ''killed'' else reason)
         in (None, map (\<lambda>link. SendLinkExitNotification (pid p) link reason') (links p))))"

text \<open>
  \<^verbatim>\<open>_on_exit_signal\<close>: the error raised (if any), the process afterwards and the calls made
  on the node. A process without \<^verbatim>\<open>_run_task\<close> fails at \<^verbatim>\<open>self._run_task.cancel()\<close>
  (the text of that error is Python's, written here without its quotation marks).
\<close>

definition on_exit_signal ::
  "('pid, 'ref) pyterm \<Rightarrow> ('msg, 'res, 'pid, 'ref) process
     \<Rightarrow> error option \<times> ('msg, 'res, 'pid, 'ref) process \<times> ('pid, 'ref) node_call list" where
  "on_exit_signal reason0 p =
     (let reason = (if reason0 = PyNone then Atom ''normal'' else reason0)
      in case run_task p of
           None \<Rightarrow>
             (Some (AttributeError ''Process object has no attribute _run_task''), p, [])
         | Some t \<Rightarrow>
             (let p' = p\<lparr>run_task := Some (cancel t), is_exiting := True\<rparr>;
                  downs = trigger_monitors reason p'
              in case trigger_links reason p' of
                   (Some e, exits) \<Rightarrow> (Some e, p', downs @ exits)
                 | (None, exits) \<Rightarrow>
                     (None, p', downs @ exits @ [OnExitProcess (pid p') reason])))"

text \<open>
  \<^verbatim>\<open>run_wrapper\<close>, once awaiting \<^verbatim>\<open>self._run_task\<close> has given \<open>r\<close>: the first handler takes
  \<open>CancelledError\<close>, the second every other \<^verbatim>\<open>Exception\<close>, the \<^verbatim>\<open>else\<close> branch a
  return; an exception that no handler takes leaves the wrapper as it came.
\<close>

definition run_wrapper_after ::
  "error option \<Rightarrow> task \<Rightarrow> ('msg, 'res, 'pid, 'ref) process
     \<Rightarrow> error option \<times> ('msg, 'res, 'pid, 'ref) process \<times> ('pid, 'ref) node_call list" where
  "run_wrapper_after r t p =
     (case r of
        None \<Rightarrow> (None, p, [])
      | Some e \<Rightarrow>
          (if e = CancelledError then
             (if is_exiting p then (None, p, []) else (Some e, p, []))
           else if isinstance_Exception e then
             on_exit_signal (Atom ''unhandledexception'') (p\<lparr>run_task := Some (cancel t)\<rparr>)
           else (Some e, p, [])))"

text \<open>
  \<^verbatim>\<open>run_wrapper\<close>: \<open>None\<close> while the loop task is not done (the wrapper is suspended).
\<close>

definition run_wrapper ::
  "('msg, 'res, 'pid, 'ref) process
     \<Rightarrow> (error option \<times> ('msg, 'res, 'pid, 'ref) process \<times> ('pid, 'ref) node_call list) option"
  where
  "run_wrapper p =
     (case run_task p of
        None \<Rightarrow> Some (Some (AttributeError ''Process object has no attribute _run_task''), p, [])
      | Some (Done r) \<Rightarrow> Some (run_wrapper_after r (Done r) p)
      | Some t \<Rightarrow> None)"

section \<open>Concrete inputs\<close>

text \<open>
  An active process with pid 1, monitored by pids 2 and 3 under the references 10 and 11,
  monitoring pid 4 under the reference 20, linked to pids 5 and 6; messages are strings. Its
  default matcher accepts every message and hands it back.
\<close>

definition identity_pattern :: "(string, string) pattern" where
  "identity_pattern = Pattern (\<lambda>m. m)"

definition example_process :: "(string, string, nat, nat) process" where
  "example_process =
     \<lparr>pid = 1, passive_mode = False, inbox = [], tmp_inbox = [], is_exiting = False,
      monitored_by = [(10, 2), (11, 3)], monitors = [(20, 4)], links = [5, 6], signals = [],
      default_match = (\<lambda>m. Some identity_pattern), run_task = Some Pending\<rparr>"

text \<open>The same process constructed with \<^verbatim>\<open>passive=True\<close>: it has no loop task.\<close>

definition passive_process :: "(string, string, nat, nat) process" where
  "passive_process = example_process\<lparr>passive_mode := True, run_task := None\<rparr>"

definition example_pid_repr :: "nat \<Rightarrow> string" where
  "example_pid_repr n = ''1''"

definition only_C :: "(string, string) matcher" where
  "only_C m = (if m = ''C'' then Some identity_pattern else None)"

definition never :: "(string, string) matcher" where
  "never m = None"

definition late_callback :: "unit \<Rightarrow> string" where
  "late_callback u = ''late''"

section \<open>Mailbox lemmas\<close>

declare cleanup_drain.simps [simp del]
declare cleanup_refill.simps [simp del]
declare receive_loop.simps [simp del]

lemma cleanup_drain_eq:
  "cleanup_drain p = p\<lparr>inbox := [], tmp_inbox := tmp_inbox p @ inbox p\<rparr>"
proof (induction p rule: cleanup_drain.induct)
  case (1 p)
  show ?case
  proof (cases "inbox p")
    case Nil
    then show ?thesis by (subst cleanup_drain.simps) simp
  next
    case (Cons m rest)
    with 1 show ?thesis by (subst cleanup_drain.simps) simp
  qed
qed

lemma cleanup_refill_eq:
  "cleanup_refill p = p\<lparr>tmp_inbox := [], inbox := inbox p @ tmp_inbox p\<rparr>"
proof (induction p rule: cleanup_refill.induct)
  case (1 p)
  show ?case
  proof (cases "tmp_inbox p")
    case Nil
    then show ?thesis by (subst cleanup_refill.simps) simp
  next
    case (Cons m rest)
    with 1 show ?thesis by (subst cleanup_refill.simps) simp
  qed
qed

lemma cleanup_inbox_eq:
  "cleanup_inbox p = p\<lparr>inbox := tmp_inbox p @ inbox p, tmp_inbox := []\<rparr>"
  by (simp add: cleanup_inbox_def cleanup_drain_eq cleanup_refill_eq)

lemma receive_loop_match:
  "inbox p = pre @ m # post \<Longrightarrow> \<forall>x \<in> set pre. match x = None \<Longrightarrow> match m = Some pat \<Longrightarrow>
   receive_loop match p =
     (Returned (run pat m) (p\<lparr>inbox := tmp_inbox p @ pre @ post, tmp_inbox := []\<rparr>), pre @ [m])"
proof (induction pre arbitrary: p)
  case Nil
  then show ?case by (subst receive_loop.simps) (simp add: cleanup_inbox_eq)
next
  case (Cons a pre)
  let ?q = "p\<lparr>inbox := pre @ m # post, tmp_inbox := tmp_inbox p @ [a]\<rparr>"
  have "receive_loop match ?q =
     (Returned (run pat m) (?q\<lparr>inbox := tmp_inbox ?q @ pre @ post, tmp_inbox := []\<rparr>), pre @ [m])"
    using Cons.prems by (intro Cons.IH) simp_all
  with Cons.prems show ?case by (subst receive_loop.simps) simp
qed

lemma receive_loop_no_match:
  "\<forall>x \<in> set (inbox p). match x = None \<Longrightarrow>
   receive_loop match p = (Waiting (p\<lparr>inbox := [], tmp_inbox := tmp_inbox p @ inbox p\<rparr>), inbox p)"
proof (induction "inbox p" arbitrary: p)
  case Nil
  then show ?case by (subst receive_loop.simps) simp
next
  case (Cons a rest)
  let ?q = "p\<lparr>inbox := rest, tmp_inbox := tmp_inbox p @ [a]\<rparr>"
  have "receive_loop match ?q = (Waiting (?q\<lparr>inbox := [], tmp_inbox := tmp_inbox ?q @ inbox ?q\<rparr>), inbox ?q)"
    using Cons by (intro Cons.hyps(1)) (simp_all, metis list.set_intros(2))
  with Cons.prems Cons.hyps(2)[symmetric] show ?case by (subst receive_loop.simps) simp
qed


lemma receive_loop_waiting_empty:
  "receive_loop match p = (Waiting p', t) \<Longrightarrow> inbox p' = []"
proof (induction match p arbitrary: t rule: receive_loop.induct)
  case (1 match p)
  show ?case
  proof (cases "inbox p")
    case Nil
    with "1.prems" show ?thesis by (subst (asm) receive_loop.simps) auto
  next
    case (Cons msg rest)
    show ?thesis
    proof (cases "match msg")
      case None
      with Cons "1.prems" "1.IH"[OF Cons None] show ?thesis
        by (subst (asm) receive_loop.simps) (auto split: prod.splits)
    next
      case (Some pat)
      with Cons "1.prems" show ?thesis by (subst (asm) receive_loop.simps) auto
    qed
  qed
qed

lemma receive_events_append:
  "receive_events match timed r (es @ es') =
     receive_events match timed (receive_events match timed r es) es'"
  by (induction match timed r es rule: receive_events.induct) (auto split: prod.splits)

lemma receive_events_waiting_empty:
  "receive_events match timed r es = (Waiting p', t) \<Longrightarrow>
   (\<And>p t0. r = (Waiting p, t0) \<Longrightarrow> inbox p = []) \<Longrightarrow> inbox p' = []"
  by (induction match timed r es rule: receive_events.induct)
     (auto split: prod.splits if_splits dest: receive_loop_waiting_empty)

lemma await_receive_waiting_empty:
  "await_receive match timed p es = (Waiting p', t) \<Longrightarrow> inbox p' = []"
  unfolding await_receive_def receive_inner_def
  by (erule receive_events_waiting_empty)
     (auto split: if_splits dest: receive_loop_waiting_empty)


lemma receive_passes_through:
  assumes "\<forall>t. timeout = Some t \<longrightarrow> 0 \<le> t"
    and "\<And>timed. await_receive match timed p es = (out, tested)"
    and "\<And>p'. out \<noteq> Raised TimeoutError p'"
  shows "receive pid_repr match timeout timeout_callback p es = (out, tested)"
proof (cases timeout)
  case None
  then show ?thesis by (simp add: receive_def assms(2))
next
  case (Some t)
  with assms(1) have "0 \<le> t" by simp
  then have w: "t \<noteq> 0 \<Longrightarrow> wait_for match t p es = (out, tested)"
    by (simp add: wait_for_def assms(2))
  show ?thesis
    using assms(3) by (cases out) (auto simp add: receive_def Some w assms(2))
qed

lemma receive_negative_timeout:
  assumes "t < 0"
  shows "receive pid_repr match (Some t) timeout_callback p es =
     (case timeout_callback of
        None \<Rightarrow>
          (Raised (ProcessTimeoutError
             (''receive in pyrlang.Process: '' @ pid_repr (pid p) @ '' timed out'')) p, [])
      | Some f \<Rightarrow> (Returned (f ()) p, []))"
  using assms
  by (cases timeout_callback) (simp_all add: receive_def wait_for_def process_repr_def)

lemma receive_immediate:
  assumes "tmp_inbox p = []" "inbox p = skipped @ m # later"
    "\<forall>x \<in> set skipped. match x = None" "match m = Some pat"
    "\<forall>t. timeout = Some t \<longrightarrow> 0 \<le> t"
  shows "receive pid_repr (Some match) timeout timeout_callback p es =
           (Returned (run pat m) (p\<lparr>inbox := skipped @ later, tmp_inbox := []\<rparr>), skipped @ [m])"
proof -
  have loop: "receive_loop match p =
      (Returned (run pat m) (p\<lparr>inbox := skipped @ later, tmp_inbox := []\<rparr>), skipped @ [m])"
    using receive_loop_match[OF assms(2,3,4)] assms(1) by simp
  have "await_receive (Some match) timed p es =
      (Returned (run pat m) (p\<lparr>inbox := skipped @ later, tmp_inbox := []\<rparr>), skipped @ [m])"
    for timed
    by (simp add: await_receive_def receive_inner_def the_match_def assms(1) loop)
  then show ?thesis by (intro receive_passes_through assms(5)) simp_all
qed

lemma on_exit_signal_atom:
  assumes "run_task p = Some t" "a \<noteq> ''normal''"
  shows "on_exit_signal (Atom a) p =
     (None, p\<lparr>run_task := Some (cancel t), is_exiting := True\<rparr>,
      map (\<lambda>(monitor_ref, monitor_owner).
             SendNowait (pid p) monitor_owner
               (Tuple [Atom ''DOWN'', RefT monitor_ref, Atom ''process'', PidT (pid p), Atom a]))
          (monitored_by p)
      @ map (\<lambda>link. SendLinkExitNotification (pid p) link
                (if a = ''kill'' then Atom ''killed'' else Atom a)) (links p)
      @ [OnExitProcess (pid p) (Atom a)])"
  using assms by (simp add: on_exit_signal_def trigger_monitors_def trigger_links_def Let_def)

lemma active_exit_normal:
  assumes "run_task p = Some t" "reason = PyNone \<or> reason = Atom ''normal''"
  shows "on_exit_signal reason p =
     (None, p\<lparr>run_task := Some (cancel t), is_exiting := True\<rparr>,
      map (\<lambda>(monitor_ref, monitor_owner).
             SendNowait (pid p) monitor_owner
               (Tuple [Atom ''DOWN'', RefT monitor_ref, Atom ''process'', PidT (pid p),
                       Atom ''normal'']))
          (monitored_by p)
      @ [OnExitProcess (pid p) (Atom ''normal'')])"
  using assms
  by (auto simp add: on_exit_signal_def trigger_monitors_def trigger_links_def Let_def)

lemma trigger_links_kill:
  "trigger_links (Atom ''kill'') p =
     (None, map (\<lambda>link. SendLinkExitNotification (pid p) link (Atom ''killed'')) (links p))"
  by (simp add: trigger_links_def)

lemma trigger_links_non_atom:
  "\<not> isinstance_Atom reason \<Longrightarrow>
   trigger_links reason p =
     (Some (AttributeError (''reason must be Atom, got '' @ type_repr reason)), [])"
  by (simp add: trigger_links_def)

section \<open>Selective receive\<close>

text \<open>
  C1. A process whose scan buffer is empty and whose mailbox holds \<open>[A, B, C]\<close>, with a pattern
  that matches \<open>C\<close> and neither \<open>A\<close> nor \<open>B\<close>: \<^verbatim>\<open>receive\<close>, called with that pattern and
  no timeout (or a timeout that is not negative), returns at once with the value that the
  matched pattern's \<^verbatim>\<open>run\<close> step gives for \<open>C\<close> (the message \<open>C\<close> itself for a pattern
  that hands the message back), the mailbox is then \<open>[A, B]\<close> and the scan buffer is empty.
  In general, when the first matching message \<open>m\<close> stands behind the messages \<open>skipped\<close>
  and before the messages \<open>later\<close>, \<open>m\<close> is removed and the mailbox becomes
  \<open>skipped @ later\<close>: the skipped messages are back at the front in their order, ahead of
  what came after.
\<close>

theorem C1_selective_receive_restoration:
  "(tmp_inbox p = [] \<and> inbox p = [A, B, C] \<and> match A = None \<and> match B = None
      \<and> match C = Some pat \<and> (\<forall>t. timeout = Some t \<longrightarrow> 0 \<le> t)
    \<longrightarrow> receive pid_repr (Some match) timeout timeout_callback p es =
          (Returned (run pat C) (p\<lparr>inbox := [A, B], tmp_inbox := []\<rparr>), [A, B, C]))
   \<and> (tmp_inbox p = [] \<and> inbox p = skipped @ m # later
      \<and> (\<forall>x \<in> set skipped. match x = None) \<and> match m = Some pat
      \<and> (\<forall>t. timeout = Some t \<longrightarrow> 0 \<le> t)
    \<longrightarrow> receive pid_repr (Some match) timeout timeout_callback p es =
          (Returned (run pat m) (p\<lparr>inbox := skipped @ later, tmp_inbox := []\<rparr>),
           skipped @ [m]))"
proof (intro conjI impI)
  assume h: "tmp_inbox p = [] \<and> inbox p = [A, B, C] \<and> match A = None \<and> match B = None
      \<and> match C = Some pat \<and> (\<forall>t. timeout = Some t \<longrightarrow> 0 \<le> t)"
  then have "inbox p = [A, B] @ C # []" "\<forall>x \<in> set [A, B]. match x = None" by simp_all
  from receive_immediate[OF _ this, of pat timeout] h
  show "receive pid_repr (Some match) timeout timeout_callback p es =
          (Returned (run pat C) (p\<lparr>inbox := [A, B], tmp_inbox := []\<rparr>), [A, B, C])"
    by simp
next
  assume "tmp_inbox p = [] \<and> inbox p = skipped @ m # later
      \<and> (\<forall>x \<in> set skipped. match x = None) \<and> match m = Some pat
      \<and> (\<forall>t. timeout = Some t \<longrightarrow> 0 \<le> t)"
  then show "receive pid_repr (Some match) timeout timeout_callback p es =
          (Returned (run pat m) (p\<lparr>inbox := skipped @ later, tmp_inbox := []\<rparr>),
           skipped @ [m])"
    by (intro receive_immediate) simp_all
qed

text \<open>
  The theorem at the mailbox \<open>[A, B, C]\<close> with a pattern that matches only \<open>C\<close> and no
  timeout, and at \<open>[A, C, D]\<close>, where \<open>D\<close> stands behind the match, with the timeout 2.
\<close>

theorem C1_witness:
  "only_C ''A'' = None \<and> only_C ''B'' = None \<and> only_C ''C'' = Some identity_pattern
   \<and> receive example_pid_repr (Some only_C) None None
      (example_process\<lparr>inbox := [''A'', ''B'', ''C'']\<rparr>) [] =
     (Returned ''C'' (example_process\<lparr>inbox := [''A'', ''B''], tmp_inbox := []\<rparr>),
      [''A'', ''B'', ''C''])
   \<and> receive example_pid_repr (Some only_C) (Some 2) None
      (example_process\<lparr>inbox := [''A'', ''C'', ''D'']\<rparr>) [] =
     (Returned ''C'' (example_process\<lparr>inbox := [''A'', ''D''], tmp_inbox := []\<rparr>),
      [''A'', ''C''])"
  using C1_selective_receive_restoration
    [where p = "example_process\<lparr>inbox := [''A'', ''B'', ''C'']\<rparr>"
       and A = "''A''" and B = "''B''" and C = "''C''" and match = only_C
       and pat = identity_pattern and pid_repr = example_pid_repr and timeout = None
       and timeout_callback = None and es = "[]"
       and skipped = "[''A'', ''B'']" and m = "''C''" and later = "[]"]
    C1_selective_receive_restoration
    [where p = "example_process\<lparr>inbox := [''A'', ''C'', ''D'']\<rparr>"
       and A = "''A''" and B = "''B''" and C = "''C''" and match = only_C
       and pat = identity_pattern and pid_repr = example_pid_repr and timeout = "Some 2"
       and timeout_callback = None and es = "[]"
       and skipped = "[''A'']" and m = "''C''" and later = "[''D'']"]
  by (simp add: example_process_def only_C_def identity_pattern_def)

text \<open>
  C3, as stated, fails. The mailbox holds \<open>[A, B]\<close> and the pattern matches nothing: the scan
  tests \<open>A\<close> and \<open>B\<close>, moves them to the scan buffer and suspends on the empty mailbox. When
  \<open>N\<close> arrives the mailbox holds \<open>N\<close> alone (\<open>A\<close> and \<open>B\<close> stay in the scan buffer), the
  resumed loop tests \<open>N\<close> and nothing else, and over the whole call the matcher has seen
  \<open>A\<close>, \<open>B\<close>, \<open>N\<close> once each, not \<open>A\<close>, \<open>B\<close> a second time.
\<close>

theorem C3_counterexample:
  "await_receive (Some never) False (example_process\<lparr>inbox := [''A'', ''B'']\<rparr>) [] =
     (Waiting (example_process\<lparr>inbox := [], tmp_inbox := [''A'', ''B'']\<rparr>), [''A'', ''B''])
   \<and> receive_events never False
       (Waiting (example_process\<lparr>inbox := [], tmp_inbox := [''A'', ''B'']\<rparr>), [])
       [Deliver ''N''] =
     (Waiting (example_process\<lparr>inbox := [], tmp_inbox := [''A'', ''B'', ''N'']\<rparr>), [''N''])
   \<and> snd (receive example_pid_repr (Some never) None None
         (example_process\<lparr>inbox := [''A'', ''B'']\<rparr>) [Deliver ''N''])
       = [''A'', ''B'', ''N'']
   \<and> snd (receive example_pid_repr (Some never) None None
         (example_process\<lparr>inbox := [''A'', ''B'']\<rparr>) [Deliver ''N''])
       \<noteq> [''A'', ''B'', ''A'', ''B'', ''N'']"
  by (simp add: receive_def await_receive_def receive_inner_def the_match_def
      example_process_def never_def receive_loop.simps)

text \<open>
  C3, amended. A \<^verbatim>\<open>receive\<close> that is suspended after the events \<open>es\<close>, having tested the
  messages \<open>tested\<close>, waits on an empty mailbox. When a message \<open>m\<close> arrives, the loop tests
  \<open>m\<close> and no other message: if \<open>m\<close> does not match it joins the skipped messages in the
  scan buffer and the call stays suspended; if it matches, the call returns the value of the
  pattern's \<^verbatim>\<open>run\<close> step and the skipped messages become the mailbox again, in their order.
\<close>

theorem C3_resume_tests_new_message_only:
  assumes "await_receive match timed p es = (Waiting p', tested)"
  shows "inbox p' = [] \<and>
    await_receive match timed p (es @ [Deliver m]) =
      (case the_match match p m of
         None \<Rightarrow> (Waiting (p'\<lparr>inbox := [], tmp_inbox := tmp_inbox p' @ [m]\<rparr>), tested @ [m])
       | Some pat \<Rightarrow>
           (Returned (run pat m) (p'\<lparr>inbox := tmp_inbox p', tmp_inbox := []\<rparr>), tested @ [m]))"
proof
  show e: "inbox p' = []" using assms by (rule await_receive_waiting_empty)
  let ?q = "p'\<lparr>inbox := inbox p' @ [m]\<rparr>"
  have step: "await_receive match timed p (es @ [Deliver m]) =
      (let (out, t) = receive_loop (the_match match p) ?q in (out, tested @ t))"
    using assms by (simp add: await_receive_def receive_events_append split: prod.splits)
  show "await_receive match timed p (es @ [Deliver m]) =
      (case the_match match p m of
         None \<Rightarrow> (Waiting (p'\<lparr>inbox := [], tmp_inbox := tmp_inbox p' @ [m]\<rparr>), tested @ [m])
       | Some pat \<Rightarrow>
           (Returned (run pat m) (p'\<lparr>inbox := tmp_inbox p', tmp_inbox := []\<rparr>), tested @ [m]))"
  proof (cases "the_match match p m")
    case None
    then have "receive_loop (the_match match p) ?q =
        (Waiting (?q\<lparr>inbox := [], tmp_inbox := tmp_inbox ?q @ inbox ?q\<rparr>), inbox ?q)"
      using e by (intro receive_loop_no_match) simp
    with None e show ?thesis by (simp add: step)
  next
    case (Some pat)
    have "receive_loop (the_match match p) ?q =
        (Returned (run pat m) (?q\<lparr>inbox := tmp_inbox ?q @ [] @ [], tmp_inbox := []\<rparr>), [] @ [m])"
      using e Some by (intro receive_loop_match) simp_all
    with Some show ?thesis by (simp add: step)
  qed
qed

theorem C3_witness:
  "await_receive (Some never) False (example_process\<lparr>inbox := [''A'', ''B'']\<rparr>) [] =
     (Waiting (example_process\<lparr>inbox := [], tmp_inbox := [''A'', ''B'']\<rparr>), [''A'', ''B''])
   \<and> await_receive (Some never) False (example_process\<lparr>inbox := [''A'', ''B'']\<rparr>)
        [Deliver ''N''] =
     (Waiting (example_process\<lparr>inbox := [], tmp_inbox := [''A'', ''B'', ''N'']\<rparr>),
      [''A'', ''B'', ''N''])
   \<and> await_receive (Some only_C) False (example_process\<lparr>inbox := [''A'', ''B'']\<rparr>)
        [Deliver ''C''] =
     (Returned ''C'' (example_process\<lparr>inbox := [''A'', ''B''], tmp_inbox := []\<rparr>),
      [''A'', ''B'', ''C''])"
proof -
  have h: "await_receive (Some never) False (example_process\<lparr>inbox := [''A'', ''B'']\<rparr>) [] =
     (Waiting (example_process\<lparr>inbox := [], tmp_inbox := [''A'', ''B'']\<rparr>), [''A'', ''B''])"
    by (simp add: await_receive_def receive_inner_def the_match_def
        example_process_def never_def receive_loop.simps)
  have k: "await_receive (Some only_C) False (example_process\<lparr>inbox := [''A'', ''B'']\<rparr>) [] =
     (Waiting (example_process\<lparr>inbox := [], tmp_inbox := [''A'', ''B'']\<rparr>), [''A'', ''B''])"
    by (simp add: await_receive_def receive_inner_def the_match_def
        example_process_def only_C_def receive_loop.simps)
  show ?thesis
    using h k C3_resume_tests_new_message_only[OF h, where m = "''N''"]
      C3_resume_tests_new_message_only[OF k, where m = "''C''"]
    by (simp add: the_match_def never_def only_C_def identity_pattern_def)
qed

text \<open>
  C4 at a call that times out in the middle of a scan. The mailbox holds \<open>A\<close>, the pattern
  matches nothing, the timeout is 1 and the timer runs out while the call is suspended:
  without a callback the call raises the process-timeout error, with a callback it returns
  the callback's value, and in both cases \<open>A\<close> stays in the scan buffer and the mailbox is
  empty. The next \<^verbatim>\<open>receive\<close> of that process raises the \<open>ValueError\<close> of the entry check.
\<close>

theorem C4_timeout_leaves_scan_buffer:
  "receive example_pid_repr (Some never) (Some 1) None
        (example_process\<lparr>inbox := [''A'']\<rparr>) [Expire] =
     (Raised (ProcessTimeoutError ''receive in pyrlang.Process: 1 timed out'')
        (example_process\<lparr>inbox := [], tmp_inbox := [''A'']\<rparr>), [''A''])
   \<and> receive example_pid_repr (Some never) (Some 1) (Some late_callback)
        (example_process\<lparr>inbox := [''A'']\<rparr>) [Expire] =
     (Returned ''late'' (example_process\<lparr>inbox := [], tmp_inbox := [''A'']\<rparr>), [''A''])
   \<and> receive example_pid_repr None None None
        (example_process\<lparr>inbox := [], tmp_inbox := [''A'']\<rparr>) [] =
     (Raised (ValueError ''temporary inbox not empty'')
        (example_process\<lparr>inbox := [], tmp_inbox := [''A'']\<rparr>), [])"
  by (simp add: receive_def wait_for_def await_receive_def receive_inner_def the_match_def
      process_repr_def
      example_process_def example_pid_repr_def late_callback_def never_def receive_loop.simps)




text \<open>
  C9. A \<^verbatim>\<open>receive\<close> with a positive timeout that is still suspended after the events
  \<open>es\<close>, so that no matching message has been consumed, and whose timer then runs out:
  without a callable \<^verbatim>\<open>timeout_callback\<close> the call raises \<open>ProcessTimeoutError\<close> with the
  text \<^verbatim>\<open>receive in pyrlang.Process: <pid> timed out\<close>; with a callable one it returns what
  the callable returns. A \<^verbatim>\<open>receive\<close> with a negative timeout has expired before the scan
  starts and ends in the same two ways, the process as it was and no message tested. (The
  timeout 0 is no timeout.)
\<close>

theorem C9_timeout_outcome:
  "(timeout = Some t \<and> 0 < t \<and> await_receive match True p es = (Waiting p', tested) \<longrightarrow>
      receive pid_repr match timeout timeout_callback p (es @ Expire # es') =
        (case timeout_callback of
           None \<Rightarrow>
             (Raised (ProcessTimeoutError
                (''receive in pyrlang.Process: '' @ pid_repr (pid p') @ '' timed out'')) p',
              tested)
         | Some f \<Rightarrow> (Returned (f ()) p', tested)))
   \<and> (timeout = Some t \<and> t < 0 \<longrightarrow>
      receive pid_repr match timeout timeout_callback p es =
        (case timeout_callback of
           None \<Rightarrow>
             (Raised (ProcessTimeoutError
                (''receive in pyrlang.Process: '' @ pid_repr (pid p) @ '' timed out'')) p, [])
         | Some f \<Rightarrow> (Returned (f ()) p, [])))"
proof (intro conjI impI)
  assume h: "timeout = Some t \<and> 0 < t \<and> await_receive match True p es = (Waiting p', tested)"
  then have expired:
    "wait_for match t p (es @ Expire # es') = (Raised TimeoutError p', tested)"
    by (simp add: wait_for_def await_receive_def receive_events_append)
  show "receive pid_repr match timeout timeout_callback p (es @ Expire # es') =
        (case timeout_callback of
           None \<Rightarrow>
             (Raised (ProcessTimeoutError
                (''receive in pyrlang.Process: '' @ pid_repr (pid p') @ '' timed out'')) p',
              tested)
         | Some f \<Rightarrow> (Returned (f ()) p', tested))"
    using h by (cases timeout_callback) (simp_all add: receive_def expired process_repr_def)
next
  assume "timeout = Some t \<and> t < 0"
  then show "receive pid_repr match timeout timeout_callback p es =
        (case timeout_callback of
           None \<Rightarrow>
             (Raised (ProcessTimeoutError
                (''receive in pyrlang.Process: '' @ pid_repr (pid p) @ '' timed out'')) p, [])
         | Some f \<Rightarrow> (Returned (f ()) p, []))"
    by (simp add: receive_negative_timeout)
qed

theorem C9_witness:
  "await_receive (Some never) True (example_process\<lparr>inbox := [''A'']\<rparr>) [Deliver ''B''] =
     (Waiting (example_process\<lparr>inbox := [], tmp_inbox := [''A'', ''B'']\<rparr>), [''A'', ''B''])
   \<and> receive example_pid_repr (Some never) (Some 3) None (example_process\<lparr>inbox := [''A'']\<rparr>)
        ([Deliver ''B''] @ Expire # []) =
     (Raised (ProcessTimeoutError ''receive in pyrlang.Process: 1 timed out'')
        (example_process\<lparr>inbox := [], tmp_inbox := [''A'', ''B'']\<rparr>), [''A'', ''B''])
   \<and> receive example_pid_repr (Some never) (Some 3) (Some late_callback)
        (example_process\<lparr>inbox := [''A'']\<rparr>) ([Deliver ''B''] @ Expire # []) =
     (Returned ''late'' (example_process\<lparr>inbox := [], tmp_inbox := [''A'', ''B'']\<rparr>),
      [''A'', ''B''])
   \<and> receive example_pid_repr (Some never) (Some (- 1)) None
        (example_process\<lparr>inbox := [''A'']\<rparr>) [] =
     (Raised (ProcessTimeoutError ''receive in pyrlang.Process: 1 timed out'')
        (example_process\<lparr>inbox := [''A'']\<rparr>), [])
   \<and> receive example_pid_repr (Some never) (Some (- 1)) (Some late_callback)
        (example_process\<lparr>inbox := [''A'']\<rparr>) [] =
     (Returned ''late'' (example_process\<lparr>inbox := [''A'']\<rparr>), [])"
proof -
  have h: "await_receive (Some never) True (example_process\<lparr>inbox := [''A'']\<rparr>) [Deliver ''B''] =
     (Waiting (example_process\<lparr>inbox := [], tmp_inbox := [''A'', ''B'']\<rparr>), [''A'', ''B''])"
    by (simp add: await_receive_def receive_inner_def the_match_def
        example_process_def never_def receive_loop.simps)
  show ?thesis
    using h
      C9_timeout_outcome[where timeout = "Some 3" and t = 3 and match = "Some never"
        and p = "example_process\<lparr>inbox := [''A'']\<rparr>" and es = "[Deliver ''B'']"
        and p' = "example_process\<lparr>inbox := [], tmp_inbox := [''A'', ''B'']\<rparr>"
        and tested = "[''A'', ''B'']" and pid_repr = example_pid_repr
        and timeout_callback = None and es' = "[]"]
      C9_timeout_outcome[where timeout = "Some 3" and t = 3 and match = "Some never"
        and p = "example_process\<lparr>inbox := [''A'']\<rparr>" and es = "[Deliver ''B'']"
        and p' = "example_process\<lparr>inbox := [], tmp_inbox := [''A'', ''B'']\<rparr>"
        and tested = "[''A'', ''B'']" and pid_repr = example_pid_repr
        and timeout_callback = "Some late_callback" and es' = "[]"]
      C9_timeout_outcome[where timeout = "Some (- 1)" and t = "- 1" and match = "Some never"
        and p = "example_process\<lparr>inbox := [''A'']\<rparr>" and es = "[]"
        and p' = "example_process\<lparr>inbox := [], tmp_inbox := [''A'', ''B'']\<rparr>"
        and tested = "[''A'', ''B'']" and pid_repr = example_pid_repr
        and timeout_callback = None and es' = "[]"]
      C9_timeout_outcome[where timeout = "Some (- 1)" and t = "- 1" and match = "Some never"
        and p = "example_process\<lparr>inbox := [''A'']\<rparr>" and es = "[]"
        and p' = "example_process\<lparr>inbox := [], tmp_inbox := [''A'', ''B'']\<rparr>"
        and tested = "[''A'', ''B'']" and pid_repr = example_pid_repr
        and timeout_callback = "Some late_callback" and es' = "[]"]
    by (simp add: example_process_def example_pid_repr_def late_callback_def)
qed

section \<open>Supervision and exit\<close>

text \<open>
  C2, as stated, fails for the cancellation. The loop task of the example process (monitored
  under two references, linked to two peers, not exiting) ends cancelled: the wrapper raises
  the \<open>CancelledError\<close> again, the process is unchanged and no call reaches the node, so the
  exit protocol has not run.
\<close>

theorem C2_counterexample:
  "run_wrapper (example_process\<lparr>run_task := Some (Done (Some CancelledError))\<rparr>) =
     Some (Some CancelledError,
           example_process\<lparr>run_task := Some (Done (Some CancelledError))\<rparr>, [])
   \<and> monitored_by example_process = [(10, 2), (11, 3)]
   \<and> links example_process = [5, 6]
   \<and> \<not> is_exiting example_process"
  by (simp add: run_wrapper_def run_wrapper_after_def example_process_def)

text \<open>
  C2, amended. When the loop task ends with an \<^verbatim>\<open>Exception\<close> (not the cancellation), the
  wrapper calls \<^verbatim>\<open>cancel\<close> on the task (which is done, so nothing changes) and runs the exit
  handler with the atom \<^verbatim>\<open>unhandledexception\<close>: in that call the process is marked exiting
  and the node receives one \<open>DOWN\<close> message per entry of \<open>monitored_by\<close>, one link-exit
  notification per linked peer and one \<^verbatim>\<open>on_exit_process\<close>, in that order and nothing
  else. This holds whether or not the process was already exiting: the exit handler sets
  \<open>is_exiting\<close> and never reads it, so a process whose exit handler has run before is
  announced again. When the loop task ends cancelled and the process is not exiting, the
  wrapper raises the \<open>CancelledError\<close> again and makes no call on the node; so does an
  exception that is not an \<^verbatim>\<open>Exception\<close>.
\<close>

theorem C2_fault_runs_exit_protocol:
  "(run_task p = Some (Done (Some e)) \<and> isinstance_Exception e \<longrightarrow>
      run_wrapper p =
        Some (None, p\<lparr>run_task := Some (Done (Some e)), is_exiting := True\<rparr>,
          map (\<lambda>(monitor_ref, monitor_owner).
                 SendNowait (pid p) monitor_owner
                   (Tuple [Atom ''DOWN'', RefT monitor_ref, Atom ''process'', PidT (pid p),
                           Atom ''unhandledexception'']))
              (monitored_by p)
          @ map (\<lambda>link. SendLinkExitNotification (pid p) link (Atom ''unhandledexception''))
              (links p)
          @ [OnExitProcess (pid p) (Atom ''unhandledexception'')]))
   \<and> (run_task p = Some (Done (Some CancelledError)) \<and> \<not> is_exiting p \<longrightarrow>
      run_wrapper p = Some (Some CancelledError, p, []))
   \<and> (run_task p = Some (Done (Some e)) \<and> \<not> isinstance_Exception e \<and> e \<noteq> CancelledError \<longrightarrow>
      run_wrapper p = Some (Some e, p, []))"
proof (intro conjI impI)
  assume h: "run_task p = Some (Done (Some e)) \<and> isinstance_Exception e"
  then have ne: "e \<noteq> CancelledError" by auto
  let ?q = "p\<lparr>run_task := Some (cancel (Done (Some e)))\<rparr>"
  have "run_wrapper p = Some (on_exit_signal (Atom ''unhandledexception'') ?q)"
    using h ne by (simp add: run_wrapper_def run_wrapper_after_def)
  moreover have "run_task ?q = Some (Done (Some e))" by simp
  ultimately show "run_wrapper p =
        Some (None, p\<lparr>run_task := Some (Done (Some e)), is_exiting := True\<rparr>,
          map (\<lambda>(monitor_ref, monitor_owner).
                 SendNowait (pid p) monitor_owner
                   (Tuple [Atom ''DOWN'', RefT monitor_ref, Atom ''process'', PidT (pid p),
                           Atom ''unhandledexception'']))
              (monitored_by p)
          @ map (\<lambda>link. SendLinkExitNotification (pid p) link (Atom ''unhandledexception''))
              (links p)
          @ [OnExitProcess (pid p) (Atom ''unhandledexception'')])"
    by (simp add: on_exit_signal_atom)
next
  assume "run_task p = Some (Done (Some CancelledError)) \<and> \<not> is_exiting p"
  then show "run_wrapper p = Some (Some CancelledError, p, [])"
    by (simp add: run_wrapper_def run_wrapper_after_def)
next
  assume "run_task p = Some (Done (Some e)) \<and> \<not> isinstance_Exception e \<and> e \<noteq> CancelledError"
  then show "run_wrapper p = Some (Some e, p, [])"
    by (simp add: run_wrapper_def run_wrapper_after_def)
qed

text \<open>
  The theorem at a loop task that ended with a fault, first on the example process, then on
  the same process already exiting (the node is called again in full); at a cancelled loop
  task; and at a loop task ended by an exception that is not an \<^verbatim>\<open>Exception\<close>.
\<close>

theorem C2_witness:
  "run_wrapper (example_process\<lparr>run_task := Some (Done (Some (Fault ''boom'')))\<rparr>) =
     Some (None,
       example_process\<lparr>run_task := Some (Done (Some (Fault ''boom''))), is_exiting := True\<rparr>,
       [SendNowait 1 2 (Tuple [Atom ''DOWN'', RefT 10, Atom ''process'', PidT 1,
                               Atom ''unhandledexception'']),
        SendNowait 1 3 (Tuple [Atom ''DOWN'', RefT 11, Atom ''process'', PidT 1,
                               Atom ''unhandledexception'']),
        SendLinkExitNotification 1 5 (Atom ''unhandledexception''),
        SendLinkExitNotification 1 6 (Atom ''unhandledexception''),
        OnExitProcess 1 (Atom ''unhandledexception'')])
   \<and> run_wrapper
       (example_process\<lparr>is_exiting := True, run_task := Some (Done (Some (Fault ''boom'')))\<rparr>) =
     Some (None,
       example_process\<lparr>is_exiting := True, run_task := Some (Done (Some (Fault ''boom'')))\<rparr>,
       [SendNowait 1 2 (Tuple [Atom ''DOWN'', RefT 10, Atom ''process'', PidT 1,
                               Atom ''unhandledexception'']),
        SendNowait 1 3 (Tuple [Atom ''DOWN'', RefT 11, Atom ''process'', PidT 1,
                               Atom ''unhandledexception'']),
        SendLinkExitNotification 1 5 (Atom ''unhandledexception''),
        SendLinkExitNotification 1 6 (Atom ''unhandledexception''),
        OnExitProcess 1 (Atom ''unhandledexception'')])
   \<and> run_wrapper (example_process\<lparr>run_task := Some (Done (Some CancelledError))\<rparr>) =
     Some (Some CancelledError,
           example_process\<lparr>run_task := Some (Done (Some CancelledError))\<rparr>, [])
   \<and> run_wrapper (example_process\<lparr>run_task := Some (Done (Some (BaseFault ''exit'')))\<rparr>) =
     Some (Some (BaseFault ''exit''),
           example_process\<lparr>run_task := Some (Done (Some (BaseFault ''exit'')))\<rparr>, [])"
  using C2_fault_runs_exit_protocol
      [where p = "example_process\<lparr>run_task := Some (Done (Some (Fault ''boom'')))\<rparr>"
         and e = "Fault ''boom''"]
    C2_fault_runs_exit_protocol
      [where p = "example_process\<lparr>is_exiting := True,
                    run_task := Some (Done (Some (Fault ''boom'')))\<rparr>"
         and e = "Fault ''boom''"]
    C2_fault_runs_exit_protocol
      [where p = "example_process\<lparr>run_task := Some (Done (Some CancelledError))\<rparr>"
         and e = "Fault ''boom''"]
    C2_fault_runs_exit_protocol
      [where p = "example_process\<lparr>run_task := Some (Done (Some (BaseFault ''exit'')))\<rparr>"
         and e = "BaseFault ''exit''"]
  by (simp add: example_process_def)

text \<open>
  C5 at a passive process. The process is monitored under the references 10 and 11; its
  constructor has set no \<^verbatim>\<open>_run_task\<close>. The exit handler, given \<^verbatim>\<open>normal\<close>, raises
  \<open>AttributeError\<close> at \<^verbatim>\<open>self._run_task.cancel()\<close>, before \<^verbatim>\<open>_trigger_monitors\<close>: no
  \<open>DOWN\<close> message is sent, the process is not marked exiting and the registry is not told.
  (On a process that has a loop task the handler does send them: lemma
  \<open>active_exit_normal\<close>.)
\<close>

theorem C5_passive_exit_sends_no_down:
  "on_exit_signal (Atom ''normal'') passive_process =
     (Some (AttributeError ''Process object has no attribute _run_task''), passive_process, [])
   \<and> monitored_by passive_process = [(10, 2), (11, 3)]
   \<and> on_exit_signal (Atom ''normal'') example_process =
     (None, example_process\<lparr>run_task := Some MustCancel, is_exiting := True\<rparr>,
      [SendNowait 1 2 (Tuple [Atom ''DOWN'', RefT 10, Atom ''process'', PidT 1, Atom ''normal'']),
       SendNowait 1 3 (Tuple [Atom ''DOWN'', RefT 11, Atom ''process'', PidT 1, Atom ''normal'']),
       OnExitProcess 1 (Atom ''normal'')])"
  by (simp add: on_exit_signal_def trigger_monitors_def trigger_links_def Let_def
      passive_process_def example_process_def)

text \<open>
  C6 at a passive process. The process is linked to the pids 5 and 6; the exit handler, given
  \<^verbatim>\<open>kill\<close>, raises \<open>AttributeError\<close> at \<^verbatim>\<open>self._run_task.cancel()\<close>, before
  \<^verbatim>\<open>_trigger_links\<close>: no linked peer is notified. (On a process that has a loop task every
  linked peer gets \<^verbatim>\<open>killed\<close>, and link propagation rejects a reason that is not an atom:
  lemmas \<open>on_exit_signal_atom\<close>, \<open>trigger_links_kill\<close> and \<open>trigger_links_non_atom\<close>.)
\<close>

theorem C6_passive_kill_notifies_no_peer:
  "on_exit_signal (Atom ''kill'') passive_process =
     (Some (AttributeError ''Process object has no attribute _run_task''), passive_process, [])
   \<and> links passive_process = [5, 6]
   \<and> on_exit_signal (Atom ''kill'') example_process =
     (None, example_process\<lparr>run_task := Some MustCancel, is_exiting := True\<rparr>,
      [SendNowait 1 2 (Tuple [Atom ''DOWN'', RefT 10, Atom ''process'', PidT 1, Atom ''kill'']),
       SendNowait 1 3 (Tuple [Atom ''DOWN'', RefT 11, Atom ''process'', PidT 1, Atom ''kill'']),
       SendLinkExitNotification 1 5 (Atom ''killed''),
       SendLinkExitNotification 1 6 (Atom ''killed''),
       OnExitProcess 1 (Atom ''kill'')])"
  by (simp add: on_exit_signal_def trigger_monitors_def trigger_links_def Let_def
      passive_process_def example_process_def)

section \<open>Links and monitors\<close>

text \<open>
  C7. \<^verbatim>\<open>remove_monitor(target, ref)\<close> removes the entry of \<open>ref\<close>, and no other, when
  \<open>ref\<close> is stored with \<open>target\<close>; when \<open>ref\<close> is stored with another pid or is not stored,
  the process, and with it the monitor map, is unchanged. \<^verbatim>\<open>remove_monitored_by\<close> does the
  same on \<open>monitored_by\<close>.
\<close>

theorem C7_remove_monitor_guarded:
  "(map_of (monitors p) ref = Some target \<longrightarrow>
      remove_monitor target ref p = p\<lparr>monitors := AList.delete ref (monitors p)\<rparr>
      \<and> map_of (monitors (remove_monitor target ref p)) = (map_of (monitors p))(ref := None))
   \<and> (map_of (monitors p) ref \<noteq> Some target \<longrightarrow> remove_monitor target ref p = p)
   \<and> (map_of (monitored_by p) ref = Some owner \<longrightarrow>
      remove_monitored_by owner ref p = p\<lparr>monitored_by := AList.delete ref (monitored_by p)\<rparr>
      \<and> map_of (monitored_by (remove_monitored_by owner ref p)) =
          (map_of (monitored_by p))(ref := None))
   \<and> (map_of (monitored_by p) ref \<noteq> Some owner \<longrightarrow> remove_monitored_by owner ref p = p)"
  by (simp add: remove_monitor_def remove_monitored_by_def delete_conv')

theorem C7_witness:
  "remove_monitor 4 20 example_process = example_process\<lparr>monitors := []\<rparr>
   \<and> remove_monitor 5 20 example_process = example_process
   \<and> remove_monitor 4 21 example_process = example_process
   \<and> remove_monitored_by 3 11 example_process = example_process\<lparr>monitored_by := [(10, 2)]\<rparr>
   \<and> remove_monitored_by 2 11 example_process = example_process"
  using C7_remove_monitor_guarded[where p = example_process and ref = 20 and target = 4 and owner = 9]
    C7_remove_monitor_guarded[where p = example_process and ref = 20 and target = 5 and owner = 9]
    C7_remove_monitor_guarded[where p = example_process and ref = 21 and target = 4 and owner = 9]
    C7_remove_monitor_guarded[where p = example_process and ref = 11 and target = 4 and owner = 3]
    C7_remove_monitor_guarded[where p = example_process and ref = 11 and target = 4 and owner = 2]
  by (simp add: example_process_def)

text \<open>
  C10. \<^verbatim>\<open>remove_link(peer)\<close> with a peer that is not linked raises \<open>KeyError\<close> and leaves
  the process, and with it the link set, unchanged; with a linked peer it removes the peer
  and raises nothing. \<^verbatim>\<open>remove_monitor\<close> with a pid that is not the stored one raises
  nothing (it has no failing branch) and changes nothing.
\<close>

theorem C10_remove_link_absent_raises:
  "(peer \<notin> set (links p) \<longrightarrow> remove_link peer p = (Some KeyError, p))
   \<and> (peer \<in> set (links p) \<longrightarrow>
        remove_link peer p = (None, p\<lparr>links := removeAll peer (links p)\<rparr>))
   \<and> (map_of (monitors p) ref \<noteq> Some target \<longrightarrow> remove_monitor target ref p = p)"
  by (simp add: remove_link_def remove_monitor_def)

theorem C10_witness:
  "remove_link 7 example_process = (Some KeyError, example_process)
   \<and> remove_link 5 example_process = (None, example_process\<lparr>links := [6]\<rparr>)
   \<and> remove_monitor 7 20 example_process = example_process"
  using C10_remove_link_absent_raises
      [where peer = 7 and p = example_process and ref = 20 and target = 7]
    C10_remove_link_absent_raises
      [where peer = 5 and p = example_process and ref = 20 and target = 7]
  by (simp add: example_process_def)

end
